theory Spec2Isabelle
  imports Main
begin

section \<open>Quiz session controller: data model\<close>

text \<open>
  The records follow the interfaces of the quiz page. JavaScript numbers that hold
  counters and indices are modelled as \<open>int\<close>; the selection state
  \<open>Record<string, string>\<close> is a partial map from question id to option letter.
  The \<open>questions\<close> column of a quiz row is JSON: \<open>None\<close> stands for a value that
  is not an array.
\<close>

record Question =
  question_id :: string
  question_text :: string
  option_a :: string
  option_b :: string
  option_c :: string
  option_d :: string
  correct_answer :: string
  difficulty :: "string option"

record QuizAttempt =
  attempt_id :: string
  student_id :: string
  quiz_id :: string
  score :: int
  attempt_number :: int

record Quiz =
  quiz_ident :: string
  quiz_subject :: string
  quiz_chapter :: "string option"
  quiz_questions :: "Question list option"
  max_score :: int
  quiz_type :: string

text \<open>
  The component state: the eight \<open>useState\<close> cells, together with the two values the
  component reads from its hooks (\<open>attemptId\<close> from the route, the id of \<open>user\<close> from
  the authentication context).
\<close>

record session =
  attemptId :: "string option"
  user :: "string option"
  attempt :: "QuizAttempt option"
  quiz :: "Quiz option"
  questions :: "Question list"
  currentQuestionIndex :: int
  selectedAnswers :: "string \<rightharpoonup> string"
  timeLeft :: int
  isSubmitting :: bool
  loading :: bool

definition initial_session :: "string option \<Rightarrow> string option \<Rightarrow> session" where
  "initial_session aid uid =
     \<lparr> attemptId = aid, user = uid, attempt = None, quiz = None, questions = [],
       currentQuestionIndex = 0, selectedAnswers = Map.empty, timeLeft = 1800,
       isSubmitting = False, loading = True \<rparr>"

section \<open>Answer selection and navigation\<close>

definition handleAnswerSelect :: "string \<Rightarrow> string \<Rightarrow> session \<Rightarrow> session" where
  "handleAnswerSelect questionId answer st =
     st\<lparr>selectedAnswers := (selectedAnswers st)(questionId \<mapsto> answer)\<rparr>"

definition handleNextQuestion :: "session \<Rightarrow> session" where
  "handleNextQuestion st =
     (if currentQuestionIndex st < int (length (questions st)) - 1
      then st\<lparr>currentQuestionIndex := currentQuestionIndex st + 1\<rparr>
      else st)"

definition handlePreviousQuestion :: "session \<Rightarrow> session" where
  "handlePreviousQuestion st =
     (if currentQuestionIndex st > 0
      then st\<lparr>currentQuestionIndex := currentQuestionIndex st - 1\<rparr>
      else st)"

section \<open>Scoring\<close>

text \<open>
  \<open>calculateScore\<close> walks the question list with a counter (the \<open>forEach\<close> loop) and
  multiplies the counter by the point value. A lookup of an absent key gives
  \<open>undefined\<close>, which is never strictly equal to a string, so only a present entry
  can match. \<open>quiz?.type\<close> of a missing quiz is \<open>undefined\<close>, which is not
  \<open>'daily'\<close>.
\<close>

definition count_step :: "(string \<rightharpoonup> string) \<Rightarrow> Question \<Rightarrow> int \<Rightarrow> int" where
  "count_step sel question correctAnswers =
     (if sel (question_id question) = Some (correct_answer question)
      then correctAnswers + 1 else correctAnswers)"

definition pointsPerQuestion :: "Quiz option \<Rightarrow> int" where
  "pointsPerQuestion qz =
     (case qz of
        None \<Rightarrow> 8
      | Some q \<Rightarrow> (if quiz_type q = ''daily'' then 25 else 8))"

definition calculateScore :: "session \<Rightarrow> int" where
  "calculateScore st =
     fold (count_step (selectedAnswers st)) (questions st) 0 * pointsPerQuestion (quiz st)"

text \<open>The question sequence a loaded quiz puts into the state.\<close>

definition loaded_questions :: "Quiz \<Rightarrow> Question list" where
  "loaded_questions q = (case quiz_questions q of Some qs \<Rightarrow> qs | None \<Rightarrow> [])"

text \<open>The state of a session on quiz \<open>Q\<close> with selection mapping \<open>S\<close>.\<close>

definition with_quiz :: "Quiz \<Rightarrow> (string \<rightharpoonup> string) \<Rightarrow> session \<Rightarrow> session" where
  "with_quiz Q S st = st\<lparr>quiz := Some Q, questions := loaded_questions Q, selectedAnswers := S\<rparr>"

definition matches :: "(string \<rightharpoonup> string) \<Rightarrow> Question \<Rightarrow> bool" where
  "matches S q = (S (question_id q) = Some (correct_answer q))"

section \<open>Effects and collaborators\<close>

text \<open>
  Every handler returns the new state together with the list of calls it makes on the
  outside world, in order. Errors caught by a \<open>try\<close> block are values.
\<close>

datatype error = NotFoundError | TypeError | PersistenceError string

datatype toast_variant = Default | Destructive

datatype effect =
    Navigate string
  | Toast string string toast_variant
  | ConsoleError string error
  | UpdateAttempt "string option" int "string \<rightharpoonup> string" string
  | TrackQuizQuestion "string option" string string string string bool

fun is_update :: "effect \<Rightarrow> bool" where
  "is_update (UpdateAttempt _ _ _ _) = True"
| "is_update _ = False"

fun is_navigate :: "effect \<Rightarrow> bool" where
  "is_navigate (Navigate _) = True"
| "is_navigate _ = False"

fun is_toast :: "effect \<Rightarrow> bool" where
  "is_toast (Toast _ _ _) = True"
| "is_toast _ = False"

text \<open>
  Modelled from the spec: the persistence collaborator (the hosted record store behind
  the \<open>supabase\<close> client, which is not part of the sources). \<open>getAttempt(id, ownerId)\<close>
  and \<open>getQuiz(id)\<close> return the record or NotFound; the query the page builds ends in
  \<open>.single()\<close>, which is an error unless exactly one row passes the filters.
\<close>

record store =
  attempts :: "QuizAttempt list"
  quizzes :: "Quiz list"

definition single :: "'a list \<Rightarrow> error + 'a" where
  "single rows = (case rows of [r] \<Rightarrow> Inr r | _ \<Rightarrow> Inl NotFoundError)"

definition getAttempt :: "store \<Rightarrow> string \<Rightarrow> string \<Rightarrow> error + QuizAttempt" where
  "getAttempt db aid uid =
     single (filter (\<lambda>r. attempt_id r = aid \<and> student_id r = uid) (attempts db))"

definition getQuiz :: "store \<Rightarrow> string \<Rightarrow> error + Quiz" where
  "getQuiz db qid = single (filter (\<lambda>q. quiz_ident q = qid) (quizzes db))"

section \<open>Loading an attempt\<close>

text \<open>
  The \<open>catch\<close> and \<open>finally\<close> blocks of \<open>fetchQuizAttempt\<close>: log, notify, navigate to
  the quiz list, and clear the loading flag.
\<close>

definition fetch_failed :: "error \<Rightarrow> session \<Rightarrow> session \<times> effect list" where
  "fetch_failed e st =
     (st\<lparr>loading := False\<rparr>,
      [ConsoleError ''Error fetching quiz:'' e,
       Toast ''Error'' ''Failed to load quiz'' Destructive,
       Navigate ''/quizzes''])"

text \<open>
  The first query. \<open>user!.id\<close> of a missing user throws a TypeError inside the \<open>try\<close>;
  a missing \<open>attemptId\<close> matches no row.
\<close>

definition query_attempt :: "store \<Rightarrow> session \<Rightarrow> error + QuizAttempt" where
  "query_attempt db st =
     (case user st of
        None \<Rightarrow> Inl TypeError
      | Some uid \<Rightarrow>
          (case attemptId st of
             None \<Rightarrow> Inl NotFoundError
           | Some aid \<Rightarrow> getAttempt db aid uid))"

definition fetchQuizAttempt :: "store \<Rightarrow> session \<Rightarrow> session \<times> effect list" where
  "fetchQuizAttempt db st =
     (case query_attempt db st of
        Inl attemptError \<Rightarrow> fetch_failed attemptError st
      | Inr attemptData \<Rightarrow>
          (let st1 = st\<lparr>attempt := Some attemptData\<rparr> in
           case getQuiz db (quiz_id attemptData) of
             Inl quizError \<Rightarrow> fetch_failed quizError st1
           | Inr quizData \<Rightarrow>
               (st1\<lparr>quiz := Some quizData, questions := loaded_questions quizData,
                    loading := False\<rparr>, [])))"

text \<open>The effect that runs when the component mounts.\<close>

definition mount_effect :: "store \<Rightarrow> session \<Rightarrow> session \<times> effect list" where
  "mount_effect db st =
     (if attemptId st = None \<or> attemptId st = Some [] \<or> user st = None
      then (st, [Navigate ''/quizzes''])
      else fetchQuizAttempt db st)"

section \<open>Rendering\<close>

text \<open>
  What the component returns: the spinner while loading, the card "Quiz not found or
  has no questions." (with its "Back to Quizzes" button) when there is no quiz or no
  question, the quiz page on the current question otherwise. Reading a field of
  \<open>questions[currentQuestionIndex]\<close> outside the array throws.
\<close>

datatype view = LoadingSpinner | NotFoundCard | QuizPage Question | RenderError

definition render :: "session \<Rightarrow> view" where
  "render st =
     (if loading st then LoadingSpinner
      else if quiz st = None \<or> questions st = [] then NotFoundCard
      else if 0 \<le> currentQuestionIndex st
              \<and> currentQuestionIndex st < int (length (questions st))
      then QuizPage (questions st ! nat (currentQuestionIndex st))
      else RenderError)"

text \<open>The click handler of the button on the card.\<close>

definition backToQuizzes_click :: "effect list" where
  "backToQuizzes_click = [Navigate ''/quizzes'']"

section \<open>Submission\<close>

function decimal :: "nat \<Rightarrow> string" where
  "decimal n =
     (if n < 10 then [char_of (48 + n)]
      else decimal (n div 10) @ [char_of (48 + n mod 10)])"
  by pat_completeness auto
termination
  by (relation "measure id") auto

definition show_int :: "int \<Rightarrow> string" where
  "show_int i = (if i < 0 then ''-'' @ decimal (nat (- i)) else decimal (nat i))"

text \<open>
  Modelled from the spec: \<open>trackQuizQuestion\<close> comes from the activity-tracking hook,
  which is not part of the sources. The spec's \<open>logQuestionOutcome\<close> is best-effort: a
  failure is swallowed inside the collaborator, so the call never throws into
  \<open>handleSubmitQuiz\<close>.
\<close>

definition track :: "session \<Rightarrow> Question \<Rightarrow> effect" where
  "track st question =
     (let studentAnswer =
            (case selectedAnswers st (question_id question) of
               None \<Rightarrow> [] | Some a \<Rightarrow> a)
      in TrackQuizQuestion (attemptId st) (question_id question) (question_text question)
           studentAnswer (correct_answer question)
           (studentAnswer = correct_answer question))"

text \<open>
  \<open>handleSubmitQuiz\<close> is asynchronous. Its first part runs up to the \<open>await\<close> of the
  update call: the guard, \<open>setIsSubmitting(true)\<close>, the score, and the update request
  (\<open>now\<close> is the timestamp). \<open>handleSubmitQuiz_begin now st\<close> is one invocation made in
  the render of the state \<open>st\<close>, while \<open>st\<close> is still the current state.
\<close>

definition handleSubmitQuiz_begin :: "string \<Rightarrow> session \<Rightarrow> session \<times> effect list" where
  "handleSubmitQuiz_begin now st =
     (if isSubmitting st then (st, [])
      else (st\<lparr>isSubmitting := True\<rparr>,
            [UpdateAttempt (attemptId st) (calculateScore st) (selectedAnswers st) now]))"

text \<open>
  The handler is a closure of the render that created it: \<open>isSubmitting\<close>,
  \<open>questions\<close>, \<open>selectedAnswers\<close>, \<open>quiz\<close> and \<open>attemptId\<close> are constants of that
  render \<open>snap\<close>, and \<open>setIsSubmitting\<close> writes the cell of the current state \<open>cur\<close>,
  which only the next render reads. Two invocations with no render between them run
  with the same \<open>snap\<close>.
\<close>

definition handleSubmitQuiz_in :: "string \<Rightarrow> session \<Rightarrow> session \<Rightarrow> session \<times> effect list" where
  "handleSubmitQuiz_in now snap cur =
     (if isSubmitting snap then (cur, [])
      else (cur\<lparr>isSubmitting := True\<rparr>,
            [UpdateAttempt (attemptId snap) (calculateScore snap) (selectedAnswers snap) now]))"

text \<open>
  The second part runs when the update call has answered (\<open>updateError\<close> is its error,
  if any). It reads questions, selections and quiz from the invocation's own render
  \<open>snap\<close> and writes \<open>isSubmitting\<close> into the current state \<open>cur\<close>.
\<close>

definition max_score_shown :: "Quiz option \<Rightarrow> int" where
  "max_score_shown qz =
     (case qz of
        None \<Rightarrow> 100
      | Some q \<Rightarrow> (if max_score q = 0 then 100 else max_score q))"

definition handleSubmitQuiz_finish ::
    "error option \<Rightarrow> session \<Rightarrow> session \<Rightarrow> session \<times> effect list" where
  "handleSubmitQuiz_finish updateError snap cur =
     (case updateError of
        Some e \<Rightarrow>
          (cur\<lparr>isSubmitting := False\<rparr>,
           [ConsoleError ''Error submitting quiz:'' e,
            Toast ''Error'' ''Failed to submit quiz'' Destructive])
      | None \<Rightarrow>
          (cur\<lparr>isSubmitting := False\<rparr>,
           map (track snap) (questions snap) @
           [Toast ''Quiz completed!''
              (''Your score: '' @ show_int (calculateScore snap) @ ''/'' @
               show_int (max_score_shown (quiz snap))) Default,
            Navigate ''/quizzes'']))"

section \<open>Countdown\<close>

text \<open>
  The effect with dependency \<open>[timeLeft]\<close> runs after the first render and after every
  render in which \<open>timeLeft\<close> has changed. Its body either arms a one-second timer whose
  callback is \<open>setTimeLeft(timeLeft - 1)\<close> or calls \<open>handleSubmitQuiz\<close>.
\<close>

datatype timer_cmd = SetTimeout int | Call_handleSubmitQuiz

definition timer_effect :: "session \<Rightarrow> timer_cmd" where
  "timer_effect st =
     (if timeLeft st > 0 then SetTimeout (timeLeft st - 1) else Call_handleSubmitQuiz)"

definition timer_fired :: "int \<Rightarrow> session \<Rightarrow> session" where
  "timer_fired v st = st\<lparr>timeLeft := v\<rparr>"

text \<open>
  \<open>elapse n now st\<close>: the effect runs for the render \<open>st\<close>, then \<open>n\<close> seconds pass with
  no other event. The result is the last state, the commands the effect issued (one
  per run), and the outside calls made (those of \<open>handleSubmitQuiz\<close> up to its
  \<open>await\<close>). After the effect has called \<open>handleSubmitQuiz\<close> no timer is armed and
  \<open>timeLeft\<close> stays, so the effect does not run again.
\<close>

fun elapse :: "nat \<Rightarrow> string \<Rightarrow> session \<Rightarrow> session \<times> timer_cmd list \<times> effect list" where
  "elapse 0 now st =
     (case timer_effect st of
        Call_handleSubmitQuiz \<Rightarrow>
          (let (st', es) = handleSubmitQuiz_begin now st in (st', [Call_handleSubmitQuiz], es))
      | SetTimeout v \<Rightarrow> (st, [SetTimeout v], []))"
| "elapse (Suc m) now st =
     (case timer_effect st of
        Call_handleSubmitQuiz \<Rightarrow>
          (let (st', es) = handleSubmitQuiz_begin now st in (st', [Call_handleSubmitQuiz], es))
      | SetTimeout v \<Rightarrow>
          (let (st', cs, es) = elapse m now (timer_fired v st)
           in (st', SetTimeout v # cs, es)))"

definition submit_calls :: "timer_cmd list \<Rightarrow> nat" where
  "submit_calls cs = length (filter (\<lambda>c. c = Call_handleSubmitQuiz) cs)"

text \<open>
  The session is in the state the spec calls Ready when the quiz page is rendered and
  no submission is in progress.
\<close>

definition in_Ready :: "session \<Rightarrow> bool" where
  "in_Ready st = (case render st of QuizPage _ \<Rightarrow> \<not> isSubmitting st | _ \<Rightarrow> False)"

section \<open>Tutoring proxy\<close>

text \<open>
  The request handler of the chat function. A request is its method, the outcome of
  \<open>req.json()\<close> (\<open>Inl\<close> the message of the error it rejects with) and the
  Authorization header. The body's fields are strings, as in the proxy's interface;
  a field that is absent is \<open>None\<close>. Strings are byte sequences (UTF-8). The CORS and
  content-type headers, the same on every response, are left out.
\<close>

record request_body =
  question :: "string option"
  subject :: "string option"
  chapter' :: "string option"

record request =
  req_method :: string
  req_body :: "string + request_body"
  authorization :: "string option"

record env =
  GEMINI_API_KEY :: "string option"

datatype part = Part (part_text: "string option")
datatype content = Content (parts: "part list option")
datatype candidate = Candidate (content: "content option")
datatype gemini_data = GeminiData (candidates: "candidate list option")

text \<open>
  What \<open>fetch\<close> resolves to: the status, the body as text, and the outcome of
  \<open>response.json()\<close>.
\<close>

record upstream_response =
  status :: nat
  body_text :: string
  body_json :: "string + gemini_data"

definition ok :: "upstream_response \<Rightarrow> bool" where
  "ok r = (200 \<le> status r \<and> status r \<le> 299)"

datatype resp_body = NoBody | ErrorBody string | AnswerBody string

record response =
  status_code :: nat
  payload :: resp_body

datatype call =
    FetchGemini string string
  | AuthGetUser string
  | InsertConversation string string string "string option" "string option"

fun is_fetch :: "call \<Rightarrow> bool" where
  "is_fetch (FetchGemini _ _) = True"
| "is_fetch _ = False"

text \<open>JavaScript's \<open>!x\<close>, \<open>x || d\<close> and \<open>x || null\<close> on an optional string.\<close>

definition falsy :: "string option \<Rightarrow> bool" where
  "falsy x = (case x of None \<Rightarrow> True | Some s \<Rightarrow> s = [])"

definition or_default :: "string option \<Rightarrow> string \<Rightarrow> string" where
  "or_default x d = (case x of None \<Rightarrow> d | Some s \<Rightarrow> (if s = [] then d else s))"

definition or_null :: "string option \<Rightarrow> string option" where
  "or_null x = (case x of None \<Rightarrow> None | Some s \<Rightarrow> (if s = [] then None else Some s))"

definition nl :: string where
  "nl = [CHR 0x0A]"

definition response_rules :: string where
  "response_rules =
     ''You are an AI tutor specialized in the Algerian BAC (Baccalaur'' @ [CHR 0xC3, CHR 0xA9]
       @ ''at) curriculum. '' @ nl @
     ''    IMPORTANT RESPONSE RULES:'' @ nl @
     ''    - ALWAYS answer in Arabic with clear structured explanations'' @ nl @
     ''    - Keep responses SHORT and DIRECT (maximum 150 words)'' @ nl @
     ''    - Use BULLET POINTS instead of long paragraphs'' @ nl @
     ''    - When writing mathematical functions, expressions, or equations, format them using LaTeX''
       @ nl @
     ''    - Wrap inline math with '' @ [CHR 0x5C] @ ''( ... '' @ [CHR 0x5C]
       @ '') and block math with '' @ [CHR 0x5C] @ ''[ ... '' @ [CHR 0x5C] @ '']'' @ nl @
     ''    - Write all physics/math units in FRENCH (e.g., m/s'' @ [CHR 0xC2, CHR 0xB2]
       @ '', kg, N, etc.)'' @ nl @
     ''    - Be concise and go straight to the point'' @ nl @
     ''    - Provide step-by-step solutions in bullet format'' @ nl @
     ''    - Use examples but keep them brief'' @ nl @
     ''    - Present content like a teacher explaining in Arabic while showing math symbols and equations neatly''
       @ nl @
     ''    '' @ nl"

definition systemContext :: "request_body \<Rightarrow> string" where
  "systemContext b =
     response_rules @ ''    Current context: Subject: '' @ or_default (subject b) ''General''
       @ '', Chapter: '' @ or_default (chapter' b) ''General''"

definition prompt :: "request_body \<Rightarrow> string \<Rightarrow> string" where
  "prompt b q =
     systemContext b @ nl @ nl @ ''Student Question: '' @ q @ nl @ nl
       @ ''Please provide a comprehensive answer:''"

text \<open>
  \<open>data.candidates?.[0]?.content?.parts?.[0]?.text\<close>: every step that is missing
  gives \<open>undefined\<close>.
\<close>

definition first_opt :: "'a list option \<Rightarrow> 'a option" where
  "first_opt xs = (case xs of None \<Rightarrow> None | Some [] \<Rightarrow> None | Some (x # _) \<Rightarrow> Some x)"

definition candidate_text :: "gemini_data \<Rightarrow> string option" where
  "candidate_text d =
     (case first_opt (candidates d) of
        None \<Rightarrow> None
      | Some c \<Rightarrow>
          (case content c of
             None \<Rightarrow> None
           | Some ct \<Rightarrow>
               (case first_opt (parts ct) of
                  None \<Rightarrow> None
                | Some p \<Rightarrow> part_text p)))"

definition aiAnswer :: "gemini_data \<Rightarrow> string" where
  "aiAnswer d = or_default (candidate_text d) ''Sorry, I could not generate a response.''"

text \<open>\<open>authHeader.replace('Bearer ', '')\<close> removes the first occurrence.\<close>

fun remove_first :: "string \<Rightarrow> string \<Rightarrow> string" where
  "remove_first p [] = []"
| "remove_first p (c # cs) =
     (if take (length p) (c # cs) = p then drop (length p) (c # cs)
      else c # remove_first p cs)"

text \<open>
  Storing the conversation: only with an Authorization header, and only when the
  token resolves to a user (\<open>getUser\<close> gives the user's id, or \<open>None\<close>). A failed
  insert is logged and nothing else; the environment of the function always holds
  the store's URL and service key.
\<close>

definition store_conversation ::
    "(string \<Rightarrow> string option) \<Rightarrow> request \<Rightarrow> request_body \<Rightarrow> string \<Rightarrow> string \<Rightarrow> call list" where
  "store_conversation getUser req b q answer =
     (if falsy (authorization req) then []
      else (let token = remove_first ''Bearer '' (or_default (authorization req) [])
            in AuthGetUser token #
               (case getUser token of
                  None \<Rightarrow> []
                | Some uid \<Rightarrow>
                    [InsertConversation uid q answer (or_null (subject b))
                       (or_null (chapter' b))])))"

text \<open>The \<open>catch\<close> block: status 500 with the message of the error.\<close>

definition caught :: "string \<Rightarrow> call list \<Rightarrow> response \<times> call list" where
  "caught msg calls = (\<lparr> status_code = 500, payload = ErrorBody msg \<rparr>, calls)"

text \<open>
  From the call of the completion API on. \<open>upstream\<close> is what the \<open>fetch\<close> gives:
  \<open>Inl\<close> when it rejects.
\<close>

definition ask_gemini ::
    "string \<Rightarrow> (string + upstream_response) \<Rightarrow> (string \<Rightarrow> string option) \<Rightarrow> request
      \<Rightarrow> request_body \<Rightarrow> string \<Rightarrow> response \<times> call list" where
  "ask_gemini key upstream getUser req b q =
     (let calls = [FetchGemini key (prompt b q)] in
      case upstream of
        Inl msg \<Rightarrow> caught msg calls
      | Inr r \<Rightarrow>
          (if \<not> ok r
           then caught (''Gemini API error: '' @ decimal (status r) @ '' '' @ body_text r) calls
           else (case body_json r of
                   Inl msg \<Rightarrow> caught msg calls
                 | Inr d \<Rightarrow>
                     (\<lparr> status_code = 200, payload = AnswerBody (aiAnswer d) \<rparr>,
                      calls @ store_conversation getUser req b q (aiAnswer d)))))"

definition serve_handler ::
    "env \<Rightarrow> (string + upstream_response) \<Rightarrow> (string \<Rightarrow> string option) \<Rightarrow> request
      \<Rightarrow> response \<times> call list" where
  "serve_handler e upstream getUser req =
     (if req_method req = ''OPTIONS'' then (\<lparr> status_code = 200, payload = NoBody \<rparr>, [])
      else (case req_body req of
              Inl msg \<Rightarrow> caught msg []
            | Inr b \<Rightarrow>
                (if falsy (question b)
                 then (\<lparr> status_code = 400, payload = ErrorBody ''Question is required'' \<rparr>, [])
                 else if falsy (GEMINI_API_KEY e)
                 then caught ''GEMINI_API_KEY not configured'' []
                 else ask_gemini (or_default (GEMINI_API_KEY e) []) upstream getUser req b
                        (or_default (question b) []))))"

definition upstream_failed :: "string + upstream_response \<Rightarrow> bool" where
  "upstream_failed upstream = (case upstream of Inl _ \<Rightarrow> True | Inr r \<Rightarrow> \<not> ok r)"

section \<open>Example data\<close>

definition mkQuestion :: "string \<Rightarrow> string \<Rightarrow> Question" where
  "mkQuestion i c =
     \<lparr> question_id = i, question_text = ''text of '' @ i, option_a = ''first'',
       option_b = ''second'', option_c = ''third'', option_d = ''fourth'',
       correct_answer = c, difficulty = None \<rparr>"

definition four_questions :: "Question list" where
  "four_questions =
     [mkQuestion ''q1'' ''A'', mkQuestion ''q2'' ''B'', mkQuestion ''q3'' ''C'',
      mkQuestion ''q4'' ''D'']"

definition daily_quiz :: Quiz where
  "daily_quiz =
     \<lparr> quiz_ident = ''z1'', quiz_subject = ''math'', quiz_chapter = None,
       quiz_questions = Some four_questions, max_score = 100, quiz_type = ''daily'' \<rparr>"

definition practice_quiz :: Quiz where
  "practice_quiz = daily_quiz\<lparr>quiz_ident := ''z2'', quiz_type := ''practice''\<rparr>"

definition three_right :: "string \<rightharpoonup> string" where
  "three_right = [''q1'' \<mapsto> ''A'', ''q2'' \<mapsto> ''B'', ''q3'' \<mapsto> ''C'', ''q4'' \<mapsto> ''A'']"

definition ready_session :: session where
  "ready_session =
     (with_quiz daily_quiz three_right (initial_session (Some ''a1'') (Some ''u1'')))
       \<lparr>loading := False\<rparr>"

definition submitting_session :: session where
  "submitting_session = fst (handleSubmitQuiz_in ''t1'' ready_session ready_session)"

definition failed_session :: session where
  "failed_session =
     fst (handleSubmitQuiz_finish (Some (PersistenceError ''offline'')) ready_session
            submitting_session)"

definition last_session :: session where
  "last_session = ready_session\<lparr>currentQuestionIndex := 3\<rparr>"

definition two_seconds_left :: session where
  "two_seconds_left = ready_session\<lparr>timeLeft := 2\<rparr>"

definition loading_session :: session where
  "loading_session = initial_session (Some ''a1'') (Some ''u1'')"

definition no_questions_session :: session where
  "no_questions_session =
     loading_session\<lparr>quiz := Some (daily_quiz\<lparr>quiz_questions := Some []\<rparr>), loading := False\<rparr>"

definition attempt_of_u2 :: QuizAttempt where
  "attempt_of_u2 =
     \<lparr> attempt_id = ''a1'', student_id = ''u2'', quiz_id = ''z1'', score = 0,
       attempt_number = 1 \<rparr>"

definition other_owner_store :: store where
  "other_owner_store = \<lparr> attempts = [attempt_of_u2], quizzes = [daily_quiz] \<rparr>"

definition attempt_of_u1 :: QuizAttempt where
  "attempt_of_u1 = attempt_of_u2\<lparr>student_id := ''u1'', quiz_id := ''z0''\<rparr>"

definition empty_quiz :: Quiz where
  "empty_quiz = daily_quiz\<lparr>quiz_ident := ''z0'', quiz_questions := Some []\<rparr>"

definition empty_quiz_store :: store where
  "empty_quiz_store = \<lparr> attempts = [attempt_of_u1], quizzes = [daily_quiz, empty_quiz] \<rparr>"

definition hello_body :: request_body where
  "hello_body = \<lparr> question = Some ''What is a limit?'', subject = Some ''math'', chapter' = None \<rparr>"

definition hello_request :: request where
  "hello_request = \<lparr> req_method = ''POST'', req_body = Inr hello_body, authorization = None \<rparr>"

definition empty_question_request :: request where
  "empty_question_request = hello_request\<lparr>req_body := Inr (hello_body\<lparr>question := Some []\<rparr>)\<rparr>"

definition missing_question_request :: request where
  "missing_question_request = hello_request\<lparr>req_body := Inr (hello_body\<lparr>question := None\<rparr>)\<rparr>"

definition configured :: env where
  "configured = \<lparr> GEMINI_API_KEY = Some ''k'' \<rparr>"

definition unavailable :: "string + upstream_response" where
  "unavailable = Inr \<lparr> status = 503, body_text = ''busy'', body_json = Inl ''Unexpected token'' \<rparr>"

definition no_candidates :: upstream_response where
  "no_candidates = \<lparr> status = 200, body_text = ''{}'', body_json = Inr (GeminiData None) \<rparr>"

definition empty_text :: upstream_response where
  "empty_text =
     \<lparr> status = 200, body_text = ''...'',
       body_json = Inr (GeminiData (Some [Candidate (Some (Content (Some [Part (Some [])])))])) \<rparr>"

definition nobody :: "string \<Rightarrow> string option" where
  "nobody token = None"

section \<open>Properties of scoring\<close>

lemma fold_count_step:
  "fold (count_step S) qs c = c + int (length (filter (matches S) qs))"
  by (induction qs arbitrary: c) (simp_all add: count_step_def matches_def)

lemma count_step_upd:
  "question_id q \<noteq> k \<Longrightarrow> count_step (S(k \<mapsto> v)) q c = count_step S q c"
  by (simp add: count_step_def)

lemma fold_count_step_upd:
  "k \<notin> question_id ` set qs \<Longrightarrow>
   fold (count_step (S(k \<mapsto> v))) qs c = fold (count_step S) qs c"
proof (induction qs arbitrary: c)
  case Nil
  show ?case by simp
next
  case (Cons q qs)
  from Cons.prems have ne: "question_id q \<noteq> k" and rest: "k \<notin> question_id ` set qs"
    by auto
  have "fold (count_step (S(k \<mapsto> v))) (q # qs) c
        = fold (count_step (S(k \<mapsto> v))) qs (count_step (S(k \<mapsto> v)) q c)"
    by (simp only: fold_simps comp_apply)
  also have "\<dots> = fold (count_step (S(k \<mapsto> v))) qs (count_step S q c)"
    by (simp only: count_step_upd [OF ne])
  also have "\<dots> = fold (count_step S) qs (count_step S q c)"
    by (rule Cons.IH [OF rest])
  also have "\<dots> = fold (count_step S) (q # qs) c"
    by (simp only: fold_simps comp_apply)
  finally show ?case .
qed

text \<open>
  Claim C1. For every quiz \<open>Q\<close> and selection mapping \<open>S\<close>, the score is the number of
  questions of \<open>Q\<close> whose recorded selection equals the question's correct option
  letter, times 25 when the quiz's type tag is "daily" and times 8 otherwise. A
  question with no entry in \<open>S\<close>, or with a different entry, is not counted.
\<close>

theorem calculateScore_count:
  "calculateScore (with_quiz Q S st) =
     int (length (filter (\<lambda>q. S (question_id q) = Some (correct_answer q)) (loaded_questions Q)))
       * (if quiz_type Q = ''daily'' then 25 else 8)"
proof -
  have "matches S = (\<lambda>q. S (question_id q) = Some (correct_answer q))"
    by (simp add: matches_def fun_eq_iff)
  then show ?thesis
    by (simp add: calculateScore_def with_quiz_def pointsPerQuestion_def fold_count_step)
qed

theorem calculateScore_count_witness:
  "calculateScore (with_quiz daily_quiz three_right ready_session) = 75 \<and>
   calculateScore (with_quiz practice_quiz three_right ready_session) = 24 \<and>
   calculateScore (with_quiz practice_quiz Map.empty ready_session) = 0"
  using calculateScore_count [of daily_quiz three_right ready_session]
    calculateScore_count [of practice_quiz three_right ready_session]
    calculateScore_count [of practice_quiz Map.empty ready_session]
  by (simp add: loaded_questions_def daily_quiz_def practice_quiz_def four_questions_def
      mkQuestion_def three_right_def)

text \<open>
  Claim C5. The score does not change when the selection mapping gets an extra entry
  at a key that is not the id of any question of the quiz.
\<close>

theorem calculateScore_extra_key:
  assumes "k \<notin> question_id ` set (loaded_questions Q)"
  shows "calculateScore (with_quiz Q (S(k \<mapsto> v)) st) = calculateScore (with_quiz Q S st)"
  using assms by (simp add: calculateScore_def with_quiz_def fold_count_step_upd)

theorem calculateScore_extra_key_witness:
  "''zz'' \<notin> question_id ` set (loaded_questions daily_quiz) \<and>
   calculateScore (with_quiz daily_quiz (three_right(''zz'' \<mapsto> ''A'')) ready_session) = 75 \<and>
   calculateScore (with_quiz daily_quiz three_right ready_session) = 75"
proof -
  have h: "''zz'' \<notin> question_id ` set (loaded_questions daily_quiz)"
    by (simp add: loaded_questions_def daily_quiz_def four_questions_def mkQuestion_def)
  have v: "calculateScore (with_quiz daily_quiz three_right ready_session) = 75"
    by (simp add: calculateScore_def with_quiz_def pointsPerQuestion_def count_step_def
        loaded_questions_def daily_quiz_def four_questions_def mkQuestion_def three_right_def)
  from calculateScore_extra_key [OF h, of three_right "''A''" ready_session] h v
  show ?thesis by simp
qed

section \<open>Properties of navigation\<close>

text \<open>
  Claim C6. With the cursor inside \<open>[0, questionCount - 1]\<close>, \<open>handleNextQuestion\<close> at
  the last index and \<open>handlePreviousQuestion\<close> at index 0 return the state unchanged;
  anywhere else they move the cursor by exactly one and change nothing else; in every
  case the cursor stays inside \<open>[0, questionCount - 1]\<close>.
\<close>

theorem navigation_bounded:
  assumes "0 \<le> currentQuestionIndex st"
    and "currentQuestionIndex st \<le> int (length (questions st)) - 1"
  shows "(currentQuestionIndex st = int (length (questions st)) - 1 \<longrightarrow>
            handleNextQuestion st = st)
       \<and> (currentQuestionIndex st \<noteq> int (length (questions st)) - 1 \<longrightarrow>
            handleNextQuestion st = st\<lparr>currentQuestionIndex := currentQuestionIndex st + 1\<rparr>)
       \<and> (currentQuestionIndex st = 0 \<longrightarrow> handlePreviousQuestion st = st)
       \<and> (currentQuestionIndex st \<noteq> 0 \<longrightarrow>
            handlePreviousQuestion st = st\<lparr>currentQuestionIndex := currentQuestionIndex st - 1\<rparr>)
       \<and> 0 \<le> currentQuestionIndex (handleNextQuestion st)
       \<and> currentQuestionIndex (handleNextQuestion st)
             \<le> int (length (questions (handleNextQuestion st))) - 1
       \<and> 0 \<le> currentQuestionIndex (handlePreviousQuestion st)
       \<and> currentQuestionIndex (handlePreviousQuestion st)
             \<le> int (length (questions (handlePreviousQuestion st))) - 1"
  using assms by (auto simp add: handleNextQuestion_def handlePreviousQuestion_def)

lemma ready_session_index: "currentQuestionIndex ready_session = 0"
  by (simp add: ready_session_def with_quiz_def initial_session_def)

lemma ready_session_questions: "questions ready_session = four_questions"
  by (simp add: ready_session_def with_quiz_def initial_session_def loaded_questions_def
      daily_quiz_def)

lemma length_four_questions: "length four_questions = 4"
  by (simp add: four_questions_def)

theorem navigation_bounded_witness:
  "0 \<le> currentQuestionIndex ready_session
   \<and> currentQuestionIndex ready_session \<le> int (length (questions ready_session)) - 1
   \<and> handlePreviousQuestion ready_session = ready_session
   \<and> handleNextQuestion ready_session = ready_session\<lparr>currentQuestionIndex := 1\<rparr>
   \<and> 0 \<le> currentQuestionIndex last_session
   \<and> currentQuestionIndex last_session \<le> int (length (questions last_session)) - 1
   \<and> handleNextQuestion last_session = last_session
   \<and> handlePreviousQuestion last_session = last_session\<lparr>currentQuestionIndex := 2\<rparr>"
proof -
  have a: "0 \<le> currentQuestionIndex ready_session"
    and b: "currentQuestionIndex ready_session \<le> int (length (questions ready_session)) - 1"
    by (simp_all add: ready_session_index ready_session_questions length_four_questions)
  have c: "0 \<le> currentQuestionIndex last_session"
    and d: "currentQuestionIndex last_session \<le> int (length (questions last_session)) - 1"
    by (simp_all add: last_session_def ready_session_questions length_four_questions)
  have i3: "currentQuestionIndex last_session = 3" by (simp add: last_session_def)
  have q3: "questions last_session = four_questions"
    by (simp add: last_session_def ready_session_questions)
  from navigation_bounded [OF a b] navigation_bounded [OF c d] a b c d
  show ?thesis
    by (simp add: ready_session_index ready_session_questions length_four_questions i3 q3)
qed

section \<open>Properties of submission\<close>

text \<open>
  The guard is released when the submission has run to its end (the \<open>finally\<close> block),
  whatever the outcome.
\<close>

lemma finish_releases_guard:
  "\<not> isSubmitting (fst (handleSubmitQuiz_finish updateError snap cur))"
  by (simp add: handleSubmitQuiz_finish_def split: option.splits)

lemma resubmit_after_finish:
  "length (filter is_update
     (snd (handleSubmitQuiz_begin now (fst (handleSubmitQuiz_finish updateError snap cur))))) = 1"
  by (simp add: handleSubmitQuiz_begin_def finish_releases_guard)

lemma ready_not_submitting: "\<not> isSubmitting ready_session"
  by (simp add: ready_session_def with_quiz_def initial_session_def)

lemma handleSubmitQuiz_in_same: "handleSubmitQuiz_in now st st = handleSubmitQuiz_begin now st"
  by (simp add: handleSubmitQuiz_in_def handleSubmitQuiz_begin_def)

lemma handleSubmitQuiz_in_guarded:
  "isSubmitting snap \<Longrightarrow> handleSubmitQuiz_in now snap cur = (cur, [])"
  by (simp add: handleSubmitQuiz_in_def)

lemma handleSubmitQuiz_in_open:
  "\<not> isSubmitting snap \<Longrightarrow>
   handleSubmitQuiz_in now snap cur =
     (cur\<lparr>isSubmitting := True\<rparr>,
      [UpdateAttempt (attemptId snap) (calculateScore snap) (selectedAnswers snap) now])"
  by (simp add: handleSubmitQuiz_in_def)

text \<open>
  Claim C2, as stated, fails twice. A second invocation from the same render as the
  first (no render between them) reads the same \<open>isSubmitting = false\<close>, passes the
  guard and issues a second update call. And the guard does not hold for the
  session: after a submission has failed and ended, the \<open>finally\<close> block has released
  it, and the next invocation issues a second update call.
\<close>

theorem submit_twice_counterexample:
  "\<not> isSubmitting ready_session
   \<and> isSubmitting submitting_session
   \<and> length (filter is_update
        (snd (handleSubmitQuiz_in ''t1'' ready_session ready_session)
         @ snd (handleSubmitQuiz_in ''t2'' ready_session submitting_session))) = 2
   \<and> \<not> isSubmitting failed_session
   \<and> length (filter is_update
        (snd (handleSubmitQuiz_in ''t1'' ready_session ready_session)
         @ snd (handleSubmitQuiz_in ''t3'' failed_session failed_session))) = 2"
proof -
  note n = ready_not_submitting
  have s: "isSubmitting submitting_session"
    by (simp add: submitting_session_def handleSubmitQuiz_in_open [OF n])
  have f: "\<not> isSubmitting failed_session"
    by (simp add: failed_session_def finish_releases_guard)
  show ?thesis
    by (simp add: n s f handleSubmitQuiz_in_open [OF n] handleSubmitQuiz_in_open [OF f])
qed

text \<open>
  Claim C2, amended. \<open>handleSubmitQuiz\<close> is guarded against re-entry from a render in
  which a submission is in progress, not once per session. An invocation made while
  no submission is in progress marks the session as submitting and issues the update
  call; an invocation from the render that shows this state returns at the guard,
  writes nothing and makes no outside call, so the two together perform the
  score-persistence update exactly once. When the submission has ended, with or
  without an error, the guard is released, and an invocation from that render issues
  the update call again.
\<close>

theorem submit_guard:
  assumes "\<not> isSubmitting st"
  shows "isSubmitting (fst (handleSubmitQuiz_in now st st))
       \<and> handleSubmitQuiz_in now' (fst (handleSubmitQuiz_in now st st)) cur = (cur, [])
       \<and> length (filter is_update
            (snd (handleSubmitQuiz_in now st st)
             @ snd (handleSubmitQuiz_in now' (fst (handleSubmitQuiz_in now st st)) cur))) = 1
       \<and> \<not> isSubmitting (fst (handleSubmitQuiz_finish updateError st cur))
       \<and> length (filter is_update
            (snd (handleSubmitQuiz_in now''
                   (fst (handleSubmitQuiz_finish updateError st cur))
                   (fst (handleSubmitQuiz_finish updateError st cur))))) = 1"
proof -
  note a = handleSubmitQuiz_in_open [OF assms]
  have s: "isSubmitting (fst (handleSubmitQuiz_in now st st))"
    by (simp add: a)
  note g = handleSubmitQuiz_in_guarded [OF s, of now' cur]
  note r = finish_releases_guard [of updateError st cur]
  show ?thesis
    using s g r by (simp add: a handleSubmitQuiz_in_open [OF r])
qed

theorem submit_guard_witness:
  "\<not> isSubmitting ready_session
   \<and> isSubmitting submitting_session
   \<and> snd (handleSubmitQuiz_in ''t2'' submitting_session submitting_session) = []
   \<and> length (filter is_update
        (snd (handleSubmitQuiz_in ''t1'' ready_session ready_session)
         @ snd (handleSubmitQuiz_in ''t2'' submitting_session submitting_session))) = 1
   \<and> length (filter is_update
        (snd (handleSubmitQuiz_in ''t3'' failed_session failed_session))) = 1"
proof -
  note g = submit_guard [OF ready_not_submitting, of "''t1''" "''t2''" submitting_session
      "Some (PersistenceError ''offline'')" "''t3''"]
  from g have s: "isSubmitting submitting_session"
    by (simp add: submitting_session_def)
  from g have e: "snd (handleSubmitQuiz_in ''t2'' submitting_session submitting_session) = []"
    by (simp add: submitting_session_def)
  from g have o: "length (filter is_update
        (snd (handleSubmitQuiz_in ''t1'' ready_session ready_session)
         @ snd (handleSubmitQuiz_in ''t2'' submitting_session submitting_session))) = 1"
    unfolding submitting_session_def by (elim conjE)
  from g have f: "length (filter is_update
        (snd (handleSubmitQuiz_in ''t3'' failed_session failed_session))) = 1"
    unfolding failed_session_def submitting_session_def by (elim conjE)
  from ready_not_submitting s e o f show ?thesis by (intro conjI)
qed

section \<open>Properties of the countdown\<close>

lemma in_Ready_not_submitting: "in_Ready st \<Longrightarrow> \<not> isSubmitting st"
  by (simp add: in_Ready_def split: view.splits)

lemma begin_guarded: "isSubmitting st \<Longrightarrow> handleSubmitQuiz_begin now st = (st, [])"
  by (simp add: handleSubmitQuiz_begin_def)

lemma begin_timeLeft: "timeLeft (fst (handleSubmitQuiz_begin now st)) = timeLeft st"
  by (simp add: handleSubmitQuiz_begin_def)

lemma timer_effect_zero: "timeLeft st = 0 \<Longrightarrow> timer_effect st = Call_handleSubmitQuiz"
  by (simp add: timer_effect_def)

lemma timer_effect_pos: "0 < timeLeft st \<Longrightarrow> timer_effect st = SetTimeout (timeLeft st - 1)"
  by (simp add: timer_effect_def)

lemma elapse_zero: "timeLeft st = 0 \<Longrightarrow>
  elapse n now st =
    (fst (handleSubmitQuiz_begin now st), [Call_handleSubmitQuiz], snd (handleSubmitQuiz_begin now st))"
  by (cases n) (simp_all add: timer_effect_zero split: prod.splits)

lemma elapse_Suc_pos: "0 < timeLeft st \<Longrightarrow>
  elapse (Suc m) now st =
    (fst (elapse m now (timer_fired (timeLeft st - 1) st)),
     SetTimeout (timeLeft st - 1) # fst (snd (elapse m now (timer_fired (timeLeft st - 1) st))),
     snd (snd (elapse m now (timer_fired (timeLeft st - 1) st))))"
  by (simp add: timer_effect_pos split: prod.splits)

lemma elapse_0_pos: "0 < timeLeft st \<Longrightarrow>
  elapse 0 now st = (st, [SetTimeout (timeLeft st - 1)], [])"
  by (simp add: timer_effect_pos)

declare elapse.simps [simp del]

lemma elapse_calls:
  "timeLeft st = int t \<Longrightarrow>
   submit_calls (fst (snd (elapse n now st))) = (if t \<le> n then 1 else 0)"
proof (induction n arbitrary: st t)
  case 0
  show ?case
  proof (cases t)
    case 0
    with "0.prems" have "timeLeft st = 0" by simp
    then show ?thesis using 0 by (simp add: elapse_zero submit_calls_def)
  next
    case (Suc t')
    with "0.prems" have "0 < timeLeft st" by simp
    then show ?thesis using Suc by (simp add: elapse_0_pos submit_calls_def)
  qed
next
  case (Suc m)
  show ?case
  proof (cases t)
    case 0
    with Suc.prems have "timeLeft st = 0" by simp
    then show ?thesis using 0 by (simp add: elapse_zero submit_calls_def)
  next
    case (Suc t')
    with Suc.prems have pos: "0 < timeLeft st" by simp
    from Suc Suc.prems have "timeLeft (timer_fired (timeLeft st - 1) st) = int t'"
      by (simp add: timer_fired_def)
    from Suc.IH [OF this]
    have "submit_calls (fst (snd (elapse m now (timer_fired (timeLeft st - 1) st))))
          = (if t' \<le> m then 1 else 0)" .
    then show ?thesis using Suc pos
      by (simp add: elapse_Suc_pos submit_calls_def)
  qed
qed

lemma elapse_state:
  "timeLeft st = int t \<Longrightarrow>
   fst (elapse n now st) =
     (if t \<le> n then fst (handleSubmitQuiz_begin now (st\<lparr>timeLeft := 0\<rparr>))
      else st\<lparr>timeLeft := int t - int n\<rparr>)"
proof (induction n arbitrary: st t)
  case 0
  show ?case
  proof (cases t)
    case 0
    with "0.prems" have z: "timeLeft st = 0" by simp
    then have e: "st\<lparr>timeLeft := 0\<rparr> = st" by (metis session.surjective session.update_convs(8))
    show ?thesis using 0 z by (simp add: elapse_zero e)
  next
    case (Suc t')
    with "0.prems" have "0 < timeLeft st" by simp
    then show ?thesis using Suc "0.prems" by (simp add: elapse_0_pos)
  qed
next
  case (Suc m)
  show ?case
  proof (cases t)
    case 0
    with Suc.prems have z: "timeLeft st = 0" by simp
    then have e: "st\<lparr>timeLeft := 0\<rparr> = st" by (metis session.surjective session.update_convs(8))
    show ?thesis using 0 z by (simp add: elapse_zero e)
  next
    case (Suc t')
    with Suc.prems have pos: "0 < timeLeft st" by simp
    from Suc Suc.prems have "timeLeft (timer_fired (timeLeft st - 1) st) = int t'"
      by (simp add: timer_fired_def)
    from Suc.IH [OF this] show ?thesis using Suc pos
      by (simp add: elapse_Suc_pos timer_fired_def)
  qed
qed

lemma elapse_effects:
  "timeLeft st = int t \<Longrightarrow>
   snd (snd (elapse n now st)) =
     (if t \<le> n then snd (handleSubmitQuiz_begin now (st\<lparr>timeLeft := 0\<rparr>)) else [])"
proof (induction n arbitrary: st t)
  case 0
  show ?case
  proof (cases t)
    case 0
    with "0.prems" have z: "timeLeft st = 0" by simp
    then have e: "st\<lparr>timeLeft := 0\<rparr> = st" by (metis session.surjective session.update_convs(8))
    show ?thesis using 0 z by (simp add: elapse_zero e)
  next
    case (Suc t')
    with "0.prems" have "0 < timeLeft st" by simp
    then show ?thesis using Suc "0.prems" by (simp add: elapse_0_pos)
  qed
next
  case (Suc m)
  show ?case
  proof (cases t)
    case 0
    with Suc.prems have z: "timeLeft st = 0" by simp
    then have e: "st\<lparr>timeLeft := 0\<rparr> = st" by (metis session.surjective session.update_convs(8))
    show ?thesis using 0 z by (simp add: elapse_zero e)
  next
    case (Suc t')
    with Suc.prems have pos: "0 < timeLeft st" by simp
    from Suc Suc.prems have "timeLeft (timer_fired (timeLeft st - 1) st) = int t'"
      by (simp add: timer_fired_def)
    from Suc.IH [OF this] show ?thesis using Suc pos
      by (simp add: elapse_Suc_pos timer_fired_def)
  qed
qed

lemma begin_render: "render (fst (handleSubmitQuiz_begin now st)) = render st"
  by (simp add: handleSubmitQuiz_begin_def render_def)

lemma elapse_render:
  assumes "timeLeft st = int t"
  shows "render (fst (elapse n now st)) = render st"
proof -
  have "render (st\<lparr>timeLeft := 0\<rparr>) = render st"
    and "render (st\<lparr>timeLeft := int t - int n\<rparr>) = render st"
    by (simp_all add: render_def)
  then show ?thesis
    by (simp add: elapse_state [OF assms] begin_render)
qed

lemma elapse_timeLeft:
  assumes "timeLeft st = int t" and "n \<le> t"
  shows "timeLeft (fst (elapse n now st)) = timeLeft st - int n"
proof (cases "t \<le> n")
  case True
  with assms have "t = n" by simp
  then show ?thesis using assms by (simp add: elapse_state [OF assms(1)] begin_timeLeft)
next
  case False
  then show ?thesis using assms by (simp add: elapse_state [OF assms(1)])
qed

lemma begin_effects_at_zero:
  "\<not> isSubmitting st \<Longrightarrow>
   snd (handleSubmitQuiz_begin now (st\<lparr>timeLeft := 0\<rparr>))
     = [UpdateAttempt (attemptId st) (calculateScore st) (selectedAnswers st) now]"
  by (simp add: handleSubmitQuiz_begin_def calculateScore_def)

text \<open>
  Claim C3. In the Ready state the countdown goes down by one with every tick: after
  \<open>n\<close> ticks, \<open>n\<close> not more than the seconds left, \<open>timeLeft\<close> has gone down by \<open>n\<close>.
  The timer effect has called \<open>handleSubmitQuiz\<close> no time while the countdown is above
  zero and exactly once from the moment it reaches zero, however many seconds pass
  afterwards; no outside call is made before zero, and the one update call is made
  at zero.
\<close>

theorem countdown_in_Ready:
  assumes "in_Ready st" and "timeLeft st = int t"
  shows "(n \<le> t \<longrightarrow> timeLeft (fst (elapse n now st)) = timeLeft st - int n)
       \<and> submit_calls (fst (snd (elapse n now st))) = (if t \<le> n then 1 else 0)
       \<and> (n < t \<longrightarrow> snd (snd (elapse n now st)) = [])
       \<and> (t \<le> n \<longrightarrow> snd (snd (elapse n now st))
             = [UpdateAttempt (attemptId st) (calculateScore st) (selectedAnswers st) now])"
proof -
  note ns = in_Ready_not_submitting [OF assms(1)]
  show ?thesis
    using elapse_timeLeft [OF assms(2), of n now] elapse_calls [OF assms(2), of n now]
    by (simp add: elapse_effects [OF assms(2)] begin_effects_at_zero [OF ns])
qed

lemma two_seconds_left_Ready: "in_Ready two_seconds_left"
  by (simp add: in_Ready_def two_seconds_left_def render_def ready_session_def with_quiz_def
      initial_session_def loaded_questions_def daily_quiz_def four_questions_def)

theorem countdown_in_Ready_witness:
  "in_Ready two_seconds_left \<and> timeLeft two_seconds_left = int 2
   \<and> timeLeft (fst (elapse 1 ''t'' two_seconds_left)) = 1
   \<and> submit_calls (fst (snd (elapse 1 ''t'' two_seconds_left))) = 0
   \<and> snd (snd (elapse 1 ''t'' two_seconds_left)) = []
   \<and> timeLeft (fst (elapse 2 ''t'' two_seconds_left)) = 0
   \<and> submit_calls (fst (snd (elapse 2 ''t'' two_seconds_left))) = 1
   \<and> submit_calls (fst (snd (elapse 7 ''t'' two_seconds_left))) = 1"
proof -
  have t: "timeLeft two_seconds_left = int 2" by (simp add: two_seconds_left_def)
  from countdown_in_Ready [OF two_seconds_left_Ready t, of 1 "''t''"]
    countdown_in_Ready [OF two_seconds_left_Ready t, of 2 "''t''"]
    countdown_in_Ready [OF two_seconds_left_Ready t, of 7 "''t''"]
    two_seconds_left_Ready t
  show ?thesis by simp
qed

text \<open>
  Claim C10. The countdown does not depend on the session state. The component mounts
  with 1800 seconds and the loading spinner; in any state whatever (loading, no quiz,
  no question) the countdown goes down by one per tick while what is rendered, the
  quiz and the questions stay as they are, and when it reaches zero the timer effect
  calls \<open>handleSubmitQuiz\<close> once, which issues the update call unless a submission is
  in progress.
\<close>

theorem countdown_in_every_state:
  assumes "timeLeft st = int t"
  shows "timeLeft (initial_session aid uid) = 1800
       \<and> render (initial_session aid uid) = LoadingSpinner
       \<and> (n \<le> t \<longrightarrow> timeLeft (fst (elapse n now st)) = timeLeft st - int n)
       \<and> render (fst (elapse n now st)) = render st
       \<and> quiz (fst (elapse n now st)) = quiz st
       \<and> questions (fst (elapse n now st)) = questions st
       \<and> submit_calls (fst (snd (elapse t now st))) = 1
       \<and> (\<not> isSubmitting st \<longrightarrow> snd (snd (elapse t now st))
             = [UpdateAttempt (attemptId st) (calculateScore st) (selectedAnswers st) now])"
proof -
  have q: "quiz (fst (elapse n now st)) = quiz st"
    and qs: "questions (fst (elapse n now st)) = questions st"
    by (simp_all add: elapse_state [OF assms] handleSubmitQuiz_begin_def)
  show ?thesis
    using elapse_timeLeft [OF assms, of n now] elapse_calls [OF assms, of t now]
      elapse_render [OF assms, of n now] q qs
    by (simp add: elapse_effects [OF assms] begin_effects_at_zero initial_session_def
        render_def)
qed

theorem countdown_in_every_state_witness:
  "timeLeft loading_session = int 1800
   \<and> render loading_session = LoadingSpinner
   \<and> quiz loading_session = None
   \<and> timeLeft (fst (elapse 60 ''t'' loading_session)) = 1740
   \<and> render (fst (elapse 60 ''t'' loading_session)) = LoadingSpinner
   \<and> submit_calls (fst (snd (elapse 1800 ''t'' loading_session))) = 1
   \<and> quiz (fst (elapse 1800 ''t'' loading_session)) = None
   \<and> snd (snd (elapse 1800 ''t'' loading_session))
       = [UpdateAttempt (Some ''a1'') 0 Map.empty ''t'']
   \<and> timeLeft no_questions_session = int 1800
   \<and> render no_questions_session = NotFoundCard
   \<and> questions (fst (elapse 1800 ''t'' no_questions_session)) = []
   \<and> submit_calls (fst (snd (elapse 1800 ''t'' no_questions_session))) = 1"
proof -
  have t: "timeLeft loading_session = int 1800"
    by (simp add: loading_session_def initial_session_def)
  have t0: "timeLeft no_questions_session = int 1800"
    by (simp add: no_questions_session_def loading_session_def initial_session_def)
  have a: "render loading_session = LoadingSpinner" "quiz loading_session = None"
    "\<not> isSubmitting loading_session" "attemptId loading_session = Some ''a1''"
    "calculateScore loading_session = 0" "selectedAnswers loading_session = Map.empty"
    by (simp_all add: loading_session_def initial_session_def render_def calculateScore_def)
  have b: "render no_questions_session = NotFoundCard" "questions no_questions_session = []"
    by (simp_all add: no_questions_session_def loading_session_def initial_session_def
        render_def)
  from countdown_in_every_state [OF t, of "Some ''a1''" "Some ''u1''" 60 "''t''"]
    countdown_in_every_state [OF t, of "Some ''a1''" "Some ''u1''" 1800 "''t''"]
    countdown_in_every_state [OF t0, of "Some ''a1''" "Some ''u1''" 1800 "''t''"]
    t t0 a b
  show ?thesis by simp
qed

section \<open>Properties of loading\<close>

lemma getAttempt_not_owned:
  assumes "\<forall>r \<in> set (attempts db). attempt_id r = aid \<longrightarrow> student_id r \<noteq> uid"
  shows "getAttempt db aid uid = Inl NotFoundError"
proof -
  from assms have "filter (\<lambda>r. attempt_id r = aid \<and> student_id r = uid) (attempts db) = []"
    by (auto simp add: filter_empty_conv)
  then show ?thesis by (simp add: getAttempt_def single_def)
qed

text \<open>
  Claim C7. When no attempt row has both the requested id and the requesting user as
  owner, the attempt query fails with \<open>NotFoundError\<close>; \<open>fetchQuizAttempt\<close> then leaves
  attempt, quiz and questions as they were, shows the error notification "Failed to
  load quiz", and navigates to the quiz list.
\<close>

theorem fetch_not_owned:
  assumes "attemptId st = Some aid" and "user st = Some uid"
    and "\<forall>r \<in> set (attempts db). attempt_id r = aid \<longrightarrow> student_id r \<noteq> uid"
  shows "getAttempt db aid uid = Inl NotFoundError
       \<and> fetchQuizAttempt db st =
           (st\<lparr>loading := False\<rparr>,
            [ConsoleError ''Error fetching quiz:'' NotFoundError,
             Toast ''Error'' ''Failed to load quiz'' Destructive,
             Navigate ''/quizzes''])
       \<and> attempt (fst (fetchQuizAttempt db st)) = attempt st
       \<and> quiz (fst (fetchQuizAttempt db st)) = quiz st
       \<and> questions (fst (fetchQuizAttempt db st)) = questions st"
proof -
  note nf = getAttempt_not_owned [OF assms(3)]
  with assms(1,2) have "query_attempt db st = Inl NotFoundError"
    by (simp add: query_attempt_def)
  then have "fetchQuizAttempt db st = fetch_failed NotFoundError st"
    by (simp add: fetchQuizAttempt_def)
  with nf show ?thesis by (simp add: fetch_failed_def)
qed

lemma loading_session_ids:
  "attemptId loading_session = Some ''a1''" "user loading_session = Some ''u1''"
  by (simp_all add: loading_session_def initial_session_def)

theorem fetch_not_owned_witness:
  "attemptId loading_session = Some ''a1'' \<and> user loading_session = Some ''u1''
   \<and> list_all (\<lambda>r. attempt_id r \<noteq> ''a1'' \<or> student_id r \<noteq> ''u1'') (attempts other_owner_store)
   \<and> map attempt_id (attempts other_owner_store) = [''a1'']
   \<and> snd (fetchQuizAttempt other_owner_store loading_session) =
        [ConsoleError ''Error fetching quiz:'' NotFoundError,
         Toast ''Error'' ''Failed to load quiz'' Destructive,
         Navigate ''/quizzes'']
   \<and> attempt (fst (fetchQuizAttempt other_owner_store loading_session)) = None
   \<and> quiz (fst (fetchQuizAttempt other_owner_store loading_session)) = None
   \<and> questions (fst (fetchQuizAttempt other_owner_store loading_session)) = []"
proof -
  have h: "\<forall>r \<in> set (attempts other_owner_store).
             attempt_id r = ''a1'' \<longrightarrow> student_id r \<noteq> ''u1''"
    by (simp add: other_owner_store_def attempt_of_u2_def)
  have l: "list_all (\<lambda>r. attempt_id r \<noteq> ''a1'' \<or> student_id r \<noteq> ''u1'')
             (attempts other_owner_store)"
    "map attempt_id (attempts other_owner_store) = [''a1'']"
    by (simp_all add: other_owner_store_def attempt_of_u2_def)
  have i: "attempt loading_session = None" "quiz loading_session = None"
    "questions loading_session = []"
    by (simp_all add: loading_session_def initial_session_def)
  from fetch_not_owned [OF loading_session_ids h] loading_session_ids l i
  show ?thesis by simp
qed

lemma empty_quiz_fetch:
  "fetchQuizAttempt empty_quiz_store loading_session =
     (loading_session\<lparr>attempt := Some attempt_of_u1, quiz := Some empty_quiz,
        questions := [], loading := False\<rparr>, [])"
  by (simp add: fetchQuizAttempt_def query_attempt_def loading_session_ids getAttempt_def
      getQuiz_def single_def empty_quiz_store_def attempt_of_u1_def attempt_of_u2_def
      empty_quiz_def daily_quiz_def loaded_questions_def)

text \<open>
  Claim C4, as stated, fails: loading an attempt whose quiz has zero questions
  succeeds without any outside call. No navigation and no notification happens; the
  component renders the card "Quiz not found or has no questions.".
\<close>

theorem empty_quiz_counterexample:
  "loaded_questions empty_quiz = []
   \<and> quiz (fst (mount_effect empty_quiz_store loading_session)) = Some empty_quiz
   \<and> questions (fst (mount_effect empty_quiz_store loading_session)) = []
   \<and> snd (mount_effect empty_quiz_store loading_session) = []
   \<and> \<not> list_ex is_navigate (snd (mount_effect empty_quiz_store loading_session))
   \<and> \<not> list_ex is_toast (snd (mount_effect empty_quiz_store loading_session))
   \<and> render (fst (mount_effect empty_quiz_store loading_session)) = NotFoundCard"
proof -
  have m: "mount_effect empty_quiz_store loading_session
           = fetchQuizAttempt empty_quiz_store loading_session"
    by (simp add: mount_effect_def loading_session_ids)
  have e: "loaded_questions empty_quiz = []"
    by (simp add: loaded_questions_def empty_quiz_def)
  show ?thesis
    by (simp add: m empty_quiz_fetch e render_def)
qed

text \<open>
  Claim C4, amended. A quiz with zero questions is treated as invalid: after it has
  been loaded the controller renders no quiz page but the card "Quiz not found or has
  no questions." with a "Back to Quizzes" button; loading it makes no outside call
  (no notification, no navigation), and pressing the button navigates to the quiz
  list.
\<close>

theorem empty_quiz_card:
  assumes "query_attempt db st = Inr a" and "getQuiz db (quiz_id a) = Inr q"
    and "loaded_questions q = []"
  shows "fetchQuizAttempt db st =
           (st\<lparr>attempt := Some a, quiz := Some q, questions := [], loading := False\<rparr>, [])
       \<and> render (fst (fetchQuizAttempt db st)) = NotFoundCard
       \<and> backToQuizzes_click = [Navigate ''/quizzes'']"
  using assms by (simp add: fetchQuizAttempt_def render_def backToQuizzes_click_def)

theorem empty_quiz_card_witness:
  "query_attempt empty_quiz_store loading_session = Inr attempt_of_u1
   \<and> getQuiz empty_quiz_store (quiz_id attempt_of_u1) = Inr empty_quiz
   \<and> loaded_questions empty_quiz = []
   \<and> snd (fetchQuizAttempt empty_quiz_store loading_session) = []
   \<and> render (fst (fetchQuizAttempt empty_quiz_store loading_session)) = NotFoundCard
   \<and> backToQuizzes_click = [Navigate ''/quizzes'']"
proof -
  have a: "query_attempt empty_quiz_store loading_session = Inr attempt_of_u1"
    by (simp add: query_attempt_def loading_session_ids getAttempt_def single_def
        empty_quiz_store_def attempt_of_u1_def attempt_of_u2_def)
  have b: "getQuiz empty_quiz_store (quiz_id attempt_of_u1) = Inr empty_quiz"
    by (simp add: getQuiz_def single_def empty_quiz_store_def attempt_of_u1_def
        attempt_of_u2_def empty_quiz_def daily_quiz_def)
  have c: "loaded_questions empty_quiz = []"
    by (simp add: loaded_questions_def empty_quiz_def)
  note r = empty_quiz_card [OF a b c]
  from r have r1: "snd (fetchQuizAttempt empty_quiz_store loading_session) = []"
    by simp
  from r have r2: "render (fst (fetchQuizAttempt empty_quiz_store loading_session)) = NotFoundCard"
    by (elim conjE)
  from r have r3: "backToQuizzes_click = [Navigate ''/quizzes'']"
    by (elim conjE)
  from a b c r1 r2 r3 show ?thesis by (intro conjI)
qed

section \<open>Properties of the proxy\<close>

lemma falsy_iff: "falsy x \<longleftrightarrow> x = None \<or> x = Some []"
  by (simp add: falsy_def split: option.splits)

lemma serve_handler_invalid:
  assumes "req_method req \<noteq> ''OPTIONS''" and "req_body req = Inr b" and "falsy (question b)"
  shows "serve_handler e upstream getUser req =
           (\<lparr> status_code = 400, payload = ErrorBody ''Question is required'' \<rparr>, [])"
  using assms by (simp add: serve_handler_def)

lemma serve_handler_valid:
  assumes "req_method req \<noteq> ''OPTIONS''" and "req_body req = Inr b"
    and "question b = Some q" and "q \<noteq> []"
    and "GEMINI_API_KEY e = Some key" and "key \<noteq> []"
  shows "serve_handler e upstream getUser req = ask_gemini key upstream getUser req b q"
  using assms by (simp add: serve_handler_def falsy_def or_default_def)

text \<open>
  Outside these cases the handler answers a preflight with status 200 and no body,
  and a request whose body cannot be read as JSON, or a 2xx answer of the completion
  API that cannot, through the \<open>catch\<close> block.
\<close>

lemma serve_handler_preflight:
  "req_method req = ''OPTIONS'' \<Longrightarrow>
   serve_handler e upstream getUser req = (\<lparr> status_code = 200, payload = NoBody \<rparr>, [])"
  by (simp add: serve_handler_def)

lemma serve_handler_unreadable:
  "req_method req \<noteq> ''OPTIONS'' \<Longrightarrow> req_body req = Inl msg \<Longrightarrow>
   serve_handler e upstream getUser req = caught msg []"
  by (simp add: serve_handler_def)

lemma ask_gemini_unreadable:
  "ok r \<Longrightarrow> body_json r = Inl msg \<Longrightarrow>
   ask_gemini key (Inr r) getUser req b q = caught msg [FetchGemini key (prompt b q)]"
  by (simp add: ask_gemini_def)

lemma ask_gemini_failed:
  assumes "upstream_failed upstream"
  shows "status_code (fst (ask_gemini key upstream getUser req b q)) = 500
       \<and> snd (ask_gemini key upstream getUser req b q) = [FetchGemini key (prompt b q)]"
  using assms
  by (simp add: ask_gemini_def upstream_failed_def caught_def split: sum.splits)

text \<open>
  Claim C8. A request (not a CORS preflight, with a JSON body) whose question field is
  missing or the empty string is answered with status 400 and "Question is required",
  whatever the environment and the completion API, and no outside call is made. A
  request with a question, when the completion API fails (the fetch rejects, or the
  status is not 2xx), is answered with status 500 after the one call of the API: the
  two statuses differ.
\<close>

theorem missing_question_rejected:
  assumes "req_method req \<noteq> ''OPTIONS''" and "req_body req = Inr b"
    and "question b = None \<or> question b = Some []"
    and "req_method req2 \<noteq> ''OPTIONS''" and "req_body req2 = Inr b2"
    and "question b2 = Some q2" and "q2 \<noteq> []"
    and "GEMINI_API_KEY e2 = Some key" and "key \<noteq> []"
    and "upstream_failed upstream2"
  shows "serve_handler e upstream getUser req =
           (\<lparr> status_code = 400, payload = ErrorBody ''Question is required'' \<rparr>, [])
       \<and> filter is_fetch (snd (serve_handler e upstream getUser req)) = []
       \<and> status_code (fst (serve_handler e2 upstream2 getUser2 req2)) = 500
       \<and> filter is_fetch (snd (serve_handler e2 upstream2 getUser2 req2))
           = [FetchGemini key (prompt b2 q2)]
       \<and> status_code (fst (serve_handler e upstream getUser req))
           \<noteq> status_code (fst (serve_handler e2 upstream2 getUser2 req2))"
proof -
  from assms(3) have "falsy (question b)" by (simp add: falsy_iff)
  note bad = serve_handler_invalid [OF assms(1,2) this, of e upstream getUser]
  note good = serve_handler_valid [OF assms(4-9), of upstream2 getUser2]
  note failed = ask_gemini_failed [OF assms(10), of key getUser2 req2 b2 q2]
  from bad good failed show ?thesis by simp
qed

theorem missing_question_rejected_witness:
  "serve_handler configured unavailable nobody empty_question_request =
     (\<lparr> status_code = 400, payload = ErrorBody ''Question is required'' \<rparr>, [])
   \<and> serve_handler configured unavailable nobody missing_question_request =
     (\<lparr> status_code = 400, payload = ErrorBody ''Question is required'' \<rparr>, [])
   \<and> upstream_failed unavailable
   \<and> status_code (fst (serve_handler configured unavailable nobody hello_request)) = 500"
proof -
  have m: "req_method empty_question_request \<noteq> ''OPTIONS''"
    "req_method missing_question_request \<noteq> ''OPTIONS''"
    "req_method hello_request \<noteq> ''OPTIONS''"
    by (simp_all add: empty_question_request_def missing_question_request_def hello_request_def)
  have b1: "req_body empty_question_request = Inr (hello_body\<lparr>question := Some []\<rparr>)"
    and b2: "req_body missing_question_request = Inr (hello_body\<lparr>question := None\<rparr>)"
    and b3: "req_body hello_request = Inr hello_body"
    by (simp_all add: empty_question_request_def missing_question_request_def hello_request_def)
  have q1: "question (hello_body\<lparr>question := Some []\<rparr>) = None
            \<or> question (hello_body\<lparr>question := Some []\<rparr>) = Some []"
    and q2: "question (hello_body\<lparr>question := None\<rparr>) = None
            \<or> question (hello_body\<lparr>question := None\<rparr>) = Some []"
    by simp_all
  have q3: "question hello_body = Some ''What is a limit?''" "''What is a limit?'' \<noteq> []"
    by (simp_all add: hello_body_def)
  have k: "GEMINI_API_KEY configured = Some ''k''" "''k'' \<noteq> []"
    by (simp_all add: configured_def)
  have u: "upstream_failed unavailable"
    by (simp add: upstream_failed_def unavailable_def ok_def)
  note r1 = missing_question_rejected [OF m(1) b1 q1 m(3) b3 q3 k u,
      of configured unavailable nobody nobody]
  note r2 = missing_question_rejected [OF m(2) b2 q2 m(3) b3 q3 k u,
      of configured unavailable nobody nobody]
  from r1 have c1: "serve_handler configured unavailable nobody empty_question_request =
     (\<lparr> status_code = 400, payload = ErrorBody ''Question is required'' \<rparr>, [])"
    by (elim conjE)
  from r2 have c2: "serve_handler configured unavailable nobody missing_question_request =
     (\<lparr> status_code = 400, payload = ErrorBody ''Question is required'' \<rparr>, [])"
    by (elim conjE)
  from r1 have c3: "status_code (fst (serve_handler configured unavailable nobody hello_request)) = 500"
    by (elim conjE)
  from c1 c2 u c3 show ?thesis by (intro conjI)
qed

text \<open>
  Claim C9. When the completion API answers a valid request with a 2xx status and a
  JSON body in which the path to the first candidate's text ends nowhere, or at the
  empty string, the proxy answers with status 200 and the answer "Sorry, I could not
  generate a response.".
\<close>

theorem no_candidate_text_fallback:
  assumes "req_method req \<noteq> ''OPTIONS''" and "req_body req = Inr b"
    and "question b = Some q" and "q \<noteq> []"
    and "GEMINI_API_KEY e = Some key" and "key \<noteq> []"
    and "upstream = Inr r" and "ok r" and "body_json r = Inr d"
    and "candidate_text d = None \<or> candidate_text d = Some []"
  shows "fst (serve_handler e upstream getUser req) =
           \<lparr> status_code = 200, payload = AnswerBody ''Sorry, I could not generate a response.'' \<rparr>"
proof -
  from assms(10) have "aiAnswer d = ''Sorry, I could not generate a response.''"
    by (auto simp add: aiAnswer_def or_default_def)
  with assms(7-9) show ?thesis
    by (simp add: serve_handler_valid [OF assms(1-6)] ask_gemini_def)
qed

theorem no_candidate_text_fallback_witness:
  "ok no_candidates \<and> candidate_text (GeminiData None) = None
   \<and> fst (serve_handler configured (Inr no_candidates) nobody hello_request) =
       \<lparr> status_code = 200, payload = AnswerBody ''Sorry, I could not generate a response.'' \<rparr>
   \<and> ok empty_text
   \<and> candidate_text (GeminiData (Some [Candidate (Some (Content (Some [Part (Some [])])))]))
       = Some []
   \<and> fst (serve_handler configured (Inr empty_text) nobody hello_request) =
       \<lparr> status_code = 200, payload = AnswerBody ''Sorry, I could not generate a response.'' \<rparr>"
proof -
  have m: "req_method hello_request \<noteq> ''OPTIONS''" and b: "req_body hello_request = Inr hello_body"
    by (simp_all add: hello_request_def)
  have q: "question hello_body = Some ''What is a limit?''" "''What is a limit?'' \<noteq> []"
    by (simp_all add: hello_body_def)
  have k: "GEMINI_API_KEY configured = Some ''k''" "''k'' \<noteq> []"
    by (simp_all add: configured_def)
  have o1: "ok no_candidates" and j1: "body_json no_candidates = Inr (GeminiData None)"
    by (simp_all add: ok_def no_candidates_def)
  have t1: "candidate_text (GeminiData None) = None"
    by (simp add: candidate_text_def first_opt_def)
  have o2: "ok empty_text"
    and j2: "body_json empty_text
             = Inr (GeminiData (Some [Candidate (Some (Content (Some [Part (Some [])])))]))"
    by (simp_all add: ok_def empty_text_def)
  have t2: "candidate_text (GeminiData (Some [Candidate (Some (Content (Some [Part (Some [])])))]))
            = Some []"
    by (simp add: candidate_text_def first_opt_def)
  note r1 = no_candidate_text_fallback [OF m b q k refl o1 j1 disjI1 [OF t1], of nobody]
  note r2 = no_candidate_text_fallback [OF m b q k refl o2 j2 disjI2 [OF t2], of nobody]
  from o1 t1 r1 o2 t2 r2 show ?thesis by (intro conjI)
qed

end
